theory Spec2Isabelle
  imports Complex_Main "HOL-Library.Char_ord" "HOL-Library.List_Lexorder"
    "HOL-Library.Sublist" "HOL-Library.AList"
begin

section \<open>JavaScript values\<close>

subsection \<open>Strings\<close>

text \<open>
  A string is the list of the bytes of its UTF-8 encoding. The built-in string
  operations are modelled on the ASCII range: bytes from 128 on have no case and are
  not white space.
\<close>

definition isWhiteSpace :: "char \<Rightarrow> bool" where
  "isWhiteSpace c = (c \<in> set [CHR 0x09, CHR 0x0A, CHR 0x0B, CHR 0x0C, CHR 0x0D, CHR '' ''])"

definition trim :: "string \<Rightarrow> string" where
  "trim s = rev (dropWhile isWhiteSpace (rev (dropWhile isWhiteSpace s)))"

definition toLowerChar :: "char \<Rightarrow> char" where
  "toLowerChar c =
     (if CHR ''A'' \<le> c \<and> c \<le> CHR ''Z'' then char_of (of_char c + (32::nat)) else c)"

definition toLowerCase :: "string \<Rightarrow> string" where
  "toLowerCase s = map toLowerChar s"

definition startsWith :: "string \<Rightarrow> string \<Rightarrow> bool" where
  "startsWith s q = prefix q s"

text \<open>\<open>s.includes(q)\<close>: \<open>q\<close> occurs in \<open>s\<close> as a contiguous run.\<close>

fun stringIncludes :: "string \<Rightarrow> string \<Rightarrow> bool" where
  "stringIncludes [] q = (q = [])"
| "stringIncludes (c # cs) q = (prefix q (c # cs) \<or> stringIncludes cs q)"

text \<open>Decimal rendering of a natural number, as a template literal renders it.\<close>

definition digitChar :: "nat \<Rightarrow> char" where
  "digitChar d = char_of (48 + d)"

fun showNat :: "nat \<Rightarrow> string" where
  "showNat n = (if n < 10 then [digitChar n] else showNat (n div 10) @ [digitChar (n mod 10)])"

declare showNat.simps [simp del]

subsection \<open>Numbers\<close>

text \<open>
  A number is NaN, an infinity or a finite value. Finite values are exact rationals:
  the rounding of binary floating point and the sign of zero are not modelled.
\<close>

datatype number = NaN | PosInf | NegInf | Fin rat

definition isNaN :: "number \<Rightarrow> bool" where
  "isNaN x = (x = NaN)"

fun negate :: "number \<Rightarrow> number" where
  "negate NaN = NaN"
| "negate PosInf = NegInf"
| "negate NegInf = PosInf"
| "negate (Fin a) = Fin (- a)"

text \<open>
  \<open>parseFloat\<close> on a string: skip leading white space, read the longest prefix that is
  a decimal literal (sign, digits, fraction, exponent, or \<open>Infinity\<close>), NaN when there
  is none.
\<close>

definition isDigit :: "char \<Rightarrow> bool" where
  "isDigit c = (CHR ''0'' \<le> c \<and> c \<le> CHR ''9'')"

definition digitsValue :: "string \<Rightarrow> nat" where
  "digitsValue ds = foldl (\<lambda>a c. 10 * a + (of_char c - 48)) 0 ds"

definition parseExponent :: "string \<Rightarrow> int" where
  "parseExponent s =
     (case s of
        [] \<Rightarrow> 0
      | c # r \<Rightarrow>
          if c = CHR ''e'' \<or> c = CHR ''E'' then
            (let neg = (r \<noteq> [] \<and> hd r = CHR ''-'');
                 r' = (if r \<noteq> [] \<and> (hd r = CHR ''-'' \<or> hd r = CHR ''+'') then tl r else r);
                 ds = takeWhile isDigit r'
             in if ds = [] then 0
                else if neg then - int (digitsValue ds) else int (digitsValue ds))
          else 0)"

definition scale10 :: "rat \<Rightarrow> int \<Rightarrow> rat" where
  "scale10 m e = (if 0 \<le> e then m * 10 ^ nat e else m / 10 ^ nat (- e))"

definition parseUnsigned :: "string \<Rightarrow> number" where
  "parseUnsigned s =
     (if startsWith s ''Infinity'' then PosInf
      else
        (let ip = takeWhile isDigit s;
             r = dropWhile isDigit s;
             hasDot = (r \<noteq> [] \<and> hd r = CHR ''.'');
             fp = (if hasDot then takeWhile isDigit (tl r) else []);
             r' = (if hasDot then dropWhile isDigit (tl r) else r)
         in if ip = [] \<and> fp = [] then NaN
            else Fin (scale10
                   (of_nat (digitsValue ip) + of_nat (digitsValue fp) / 10 ^ length fp)
                   (parseExponent r'))))"

definition parseFloatString :: "string \<Rightarrow> number" where
  "parseFloatString s =
     (case dropWhile isWhiteSpace s of
        [] \<Rightarrow> NaN
      | c # r \<Rightarrow>
          if c = CHR ''-'' then negate (parseUnsigned r)
          else if c = CHR ''+'' then parseUnsigned r
          else parseUnsigned (c # r))"

subsection \<open>Dynamically typed values\<close>

datatype jsval =
    JUndefined
  | JNull
  | JBool bool
  | JNum number
  | JStr string
  | JArr "jsval list"
  | JObj "(string \<times> jsval) list"

text \<open>Truthiness, as \<open>||\<close>, \<open>&&\<close>, \<open>!\<close> and \<open>if\<close> read a value.\<close>

fun truthyNumber :: "number \<Rightarrow> bool" where
  "truthyNumber NaN = False"
| "truthyNumber (Fin a) = (a \<noteq> 0)"
| "truthyNumber PosInf = True"
| "truthyNumber NegInf = True"

fun truthy :: "jsval \<Rightarrow> bool" where
  "truthy JUndefined = False"
| "truthy JNull = False"
| "truthy (JBool b) = b"
| "truthy (JNum x) = truthyNumber x"
| "truthy (JStr s) = (s \<noteq> [])"
| "truthy (JArr xs) = True"
| "truthy (JObj kvs) = True"

text \<open>\<open>a || b\<close>\<close>

definition orElse :: "jsval \<Rightarrow> jsval \<Rightarrow> jsval" where
  "orElse a b = (if truthy a then a else b)"

text \<open>
  Reading a property of a value that is neither \<open>null\<close> nor \<open>undefined\<close>. An object is
  the list of its own properties; every name the program reads from an input item is
  absent from the prototypes of objects, arrays, strings, numbers and booleans, so any
  other value answers \<open>undefined\<close>.
\<close>

fun getProp :: "jsval \<Rightarrow> string \<Rightarrow> jsval" where
  "getProp (JObj kvs) k = (case map_of kvs k of None \<Rightarrow> JUndefined | Some v \<Rightarrow> v)"
| "getProp v k = JUndefined"

text \<open>
  The own enumerable properties an object spread \<open>{...v}\<close> copies: those of an object,
  the indexed elements of an array, the indexed characters of a string, nothing for
  any other value.
\<close>

fun indexed :: "nat \<Rightarrow> jsval list \<Rightarrow> (string \<times> jsval) list" where
  "indexed i [] = []"
| "indexed i (v # vs) = (showNat i, v) # indexed (Suc i) vs"

fun ownEntries :: "jsval \<Rightarrow> (string \<times> jsval) list" where
  "ownEntries (JObj kvs) = kvs"
| "ownEntries (JArr vs) = indexed 0 vs"
| "ownEntries (JStr s) = indexed 0 (map (\<lambda>c. JStr [c]) s)"
| "ownEntries v = []"

text \<open>
  \<open>{...a, ...b}\<close>: a later value replaces an earlier one under the same name. (An
  object lists integer-like names before the others; that order is not modelled.)
\<close>

definition assignAll :: "(string \<times> jsval) list \<Rightarrow> (string \<times> jsval) list \<Rightarrow> (string \<times> jsval) list" where
  "assignAll target src = fold (\<lambda>(k, v). AList.update k v) src target"

definition objectSpread :: "jsval \<Rightarrow> jsval \<Rightarrow> jsval" where
  "objectSpread a b = JObj (assignAll (assignAll [] (ownEntries a)) (ownEntries b))"

text \<open>
  \<open>parseFloat(v)\<close> converts \<open>v\<close> to a string first. A number's string parses back to
  the number; an array's string is its elements joined by commas (\<open>null\<close> and
  \<open>undefined\<close> as the empty string), of which only the first can be read; the strings
  of \<open>undefined\<close>, \<open>null\<close>, booleans and objects hold no decimal literal.
\<close>

fun parseFloat :: "jsval \<Rightarrow> number" where
  "parseFloat (JNum x) = x"
| "parseFloat (JStr s) = parseFloatString s"
| "parseFloat (JArr (v # vs)) = parseFloat v"
| "parseFloat v = NaN"

section \<open>Data model\<close>

text \<open>
  The interface \<open>Project\<close>. The text fields are declared \<open>string\<close>; the type is not
  checked when the program runs, so the record is generic in what a text field holds:
  \<open>string project\<close> is the declared interface, \<open>jsval project\<close> is what the
  normalizer builds from an unchecked input. \<open>None\<close> is the coordinate \<open>null\<close>.
\<close>

record 't project =
  name :: 't
  projectUrl :: 't
  province :: 't
  district :: 't
  category :: 't
  latitude :: "number option"
  longitude :: "number option"
  area :: 't
  units :: 't
  towers :: 't
  investor :: 't
  attributes :: jsval
  priceHistory :: jsval

section \<open>Record normalizer\<close>

datatype error = TypeError string | SyntaxError string | Error string

fun errorMessage :: "error \<Rightarrow> string" where
  "errorMessage (TypeError m) = m"
| "errorMessage (SyntaxError m) = m"
| "errorMessage (Error m) = m"

text \<open>The localized column names, as UTF-8.\<close>

definition key_TenDuAn :: string where
  "key_TenDuAn = ''T'' @ [CHR 0xC3, CHR 0xAA] @ ''n D'' @ [CHR 0xE1, CHR 0xBB, CHR 0xB1] @ '' ''
     @ [CHR 0xC3, CHR 0x81] @ ''n''"

definition key_URLDuAn :: string where
  "key_URLDuAn = ''URL D'' @ [CHR 0xE1, CHR 0xBB, CHR 0xB1] @ '' '' @ [CHR 0xC3, CHR 0x81] @ ''n''"

definition key_Cap2 :: string where
  "key_Cap2 = ''C'' @ [CHR 0xE1, CHR 0xBA, CHR 0xA5] @ ''p 2''"

definition key_Cap3 :: string where
  "key_Cap3 = ''C'' @ [CHR 0xE1, CHR 0xBA, CHR 0xA5] @ ''p 3''"

definition key_Cap4 :: string where
  "key_Cap4 = ''C'' @ [CHR 0xE1, CHR 0xBA, CHR 0xA5] @ ''p 4''"

definition key_DienTich :: string where
  "key_DienTich = ''Di'' @ [CHR 0xE1, CHR 0xBB, CHR 0x87] @ ''n t'' @ [CHR 0xC3, CHR 0xAD] @ ''ch''"

definition key_SoCan :: string where
  "key_SoCan = ''S'' @ [CHR 0xE1, CHR 0xBB, CHR 0x91] @ '' c'' @ [CHR 0xC4, CHR 0x83] @ ''n''"

definition key_SoToa :: string where
  "key_SoToa = ''S'' @ [CHR 0xE1, CHR 0xBB, CHR 0x91] @ '' t'' @ [CHR 0xC3, CHR 0xB2] @ ''a''"

definition key_ChuDauTu :: string where
  "key_ChuDauTu = ''Ch'' @ [CHR 0xE1, CHR 0xBB, CHR 0xA7] @ '' ''
     @ [CHR 0xC4, CHR 0x91, CHR 0xE1, CHR 0xBA, CHR 0xA7] @ ''u t'' @ [CHR 0xC6, CHR 0xB0]"

text \<open>
  \<open>JSON.parse\<close> belongs to the platform: it is a parameter, \<open>Inl\<close> when it throws.
\<close>

type_synonym json_parser = "string \<Rightarrow> error + jsval"

text \<open>
  The extra attributes: \<open>item.attributes || {}\<close>, merged with the column
  \<open>Attributes (Other)\<close> when that is a string starting with a brace that parses, or an
  object. A failed parse is caught and only logged.
\<close>

definition mergeAttributes :: "json_parser \<Rightarrow> jsval \<Rightarrow> jsval" where
  "mergeAttributes JSON_parse item =
     (let attributes = orElse (getProp item ''attributes'') (JObj []);
          rawAttributes = getProp item ''Attributes (Other)''
      in if truthy rawAttributes then
           (case rawAttributes of
              JStr s \<Rightarrow>
                if startsWith (trim s) ''{'' then
                  (case JSON_parse s of
                     Inr parsed \<Rightarrow> objectSpread attributes parsed
                   | Inl e \<Rightarrow> attributes)
                else attributes
            | JArr vs \<Rightarrow> objectSpread attributes rawAttributes
            | JObj kvs \<Rightarrow> objectSpread attributes rawAttributes
            | _ \<Rightarrow> attributes)
         else attributes)"

definition toCoordinate :: "number \<Rightarrow> number option" where
  "toCoordinate x = (if isNaN x then None else Some x)"

text \<open>
  The message of the TypeError that reading \<open>item.attributes\<close> throws when the item is
  \<open>null\<close> or \<open>undefined\<close> (the wording is the engine's).
\<close>

definition nullReadMessage :: "jsval \<Rightarrow> string" where
  "nullReadMessage item =
     ''Cannot read properties of '' @ (if item = JNull then ''null'' else ''undefined'')
       @ '' (reading 'attributes')''"

definition transformItemToProject :: "json_parser \<Rightarrow> jsval \<Rightarrow> error + jsval project" where
  "transformItemToProject JSON_parse item =
     (if item = JNull \<or> item = JUndefined then Inl (TypeError (nullReadMessage item))
      else
        (let attrs = mergeAttributes JSON_parse item;
             lat = parseFloat (orElse (orElse (getProp item ''latitude'') (getProp item ''Latitude''))
                                 (getProp item ''lat''));
             lng = parseFloat (orElse (orElse (getProp item ''longitude'') (getProp item ''Longitude''))
                                 (getProp item ''long''))
         in Inr \<lparr>
              name = orElse (orElse (getProp item ''name'') (getProp item key_TenDuAn)) (JStr ''N/A''),
              projectUrl = orElse (orElse (getProp item ''projectUrl'') (getProp item key_URLDuAn)) (JStr ''#''),
              province = orElse (orElse (getProp item ''province'') (getProp item key_Cap2)) (JStr ''N/A''),
              district = orElse (orElse (getProp item ''district'') (getProp item key_Cap3)) (JStr ''N/A''),
              category = orElse (orElse (getProp item ''category'') (getProp item key_Cap4)) (JStr ''N/A''),
              latitude = toCoordinate lat,
              longitude = toCoordinate lng,
              area = orElse (orElse (getProp item ''area'') (getProp item key_DienTich)) (JStr ''N/A''),
              units = orElse (orElse (getProp item ''units'') (getProp item key_SoCan)) (JStr ''N/A''),
              towers = orElse (orElse (getProp item ''towers'') (getProp item key_SoToa)) (JStr ''N/A''),
              investor = orElse (orElse (getProp item ''investor'') (getProp item key_ChuDauTu)) (JStr ''N/A''),
              attributes = attrs,
              priceHistory = orElse (getProp item ''priceHistory'') JNull
            \<rparr>))"

text \<open>\<open>items.map(transformItemToProject)\<close> stops at the first item that throws.\<close>

fun mapItems :: "json_parser \<Rightarrow> jsval list \<Rightarrow> error + jsval project list" where
  "mapItems JSON_parse [] = Inr []"
| "mapItems JSON_parse (item # items) =
     (case transformItemToProject JSON_parse item of
        Inl e \<Rightarrow> Inl e
      | Inr p \<Rightarrow>
          (case mapItems JSON_parse items of
             Inl e \<Rightarrow> Inl e
           | Inr ps \<Rightarrow> Inr (p # ps)))"



section \<open>Application state\<close>

record 't app_state =
  allProjects :: "'t project list"
  filteredProjects :: "'t project list"
  uploadError :: "string option"
  selectedProvince :: string
  selectedDistrict :: string
  selectedInvestor :: string
  showLabels :: bool
  minProjectsCount :: nat
  searchQuery :: string
  investorSearchQuery :: string

text \<open>
  The minimum count is a natural number: it starts at 0 and the filter panel stores
  \<open>isNaN(value) || value < 0 ? 0 : value\<close> of \<open>parseInt\<close>.
\<close>

section \<open>Derived state\<close>

text \<open>
  \<open>project.investor && project.investor.trim() !== '' ? project.investor : 'N/A'\<close>,
  written out twice in the source (\<open>invName\<close>, \<open>projectInvestor\<close>).
\<close>

definition projectInvestor :: "string project \<Rightarrow> string" where
  "projectInvestor project =
     (if investor project \<noteq> [] \<and> trim (investor project) \<noteq> [] then investor project else ''N/A'')"

subsection \<open>Provinces\<close>



subsection \<open>Investor roster\<close>

text \<open>
  \<open>investorCounts\<close> is a plain object used as a dictionary, so a read finds the
  members of \<open>Object.prototype\<close> under their names when the object has no own property
  of that name.
\<close>

definition objectPrototypeNames :: "string list" where
  "objectPrototypeNames =
     [''constructor'', ''__defineGetter__'', ''__defineSetter__'', ''hasOwnProperty'',
      ''__lookupGetter__'', ''__lookupSetter__'', ''isPrototypeOf'', ''propertyIsEnumerable'',
      ''toString'', ''valueOf'', ''__proto__'', ''toLocaleString'']"

text \<open>
  A value stored in \<open>investorCounts\<close>: a number, or the string that \<open>+ 1\<close> builds when
  the value read was not a number (the text of an inherited member followed by 1).
\<close>

datatype countValue = CountNumber nat | CountString

datatype countRead = Own countValue | Inherited | Missing

definition readCount :: "(string \<times> countValue) list \<Rightarrow> string \<Rightarrow> countRead" where
  "readCount investorCounts k =
     (case map_of investorCounts k of
        Some v \<Rightarrow> Own v
      | None \<Rightarrow> if k \<in> set objectPrototypeNames then Inherited else Missing)"

text \<open>\<open>(investorCounts[invName] || 0) + 1\<close>\<close>

fun plusOne :: "countRead \<Rightarrow> countValue" where
  "plusOne Missing = CountNumber 1"
| "plusOne (Own (CountNumber n)) = CountNumber (n + 1)"
| "plusOne (Own CountString) = CountString"
| "plusOne Inherited = CountString"

text \<open>
  \<open>investorCounts[invName] = v\<close>: an own property is written, in place or at the end;
  under \<open>__proto__\<close> the inherited setter runs instead and ignores a value that is
  neither an object nor \<open>null\<close>. (\<open>Object.entries\<close> lists integer-like names before the
  others; the sort that follows makes the order of the entries irrelevant.)
\<close>

definition writeCount :: "(string \<times> countValue) list \<Rightarrow> string \<Rightarrow> countValue \<Rightarrow> (string \<times> countValue) list" where
  "writeCount investorCounts k v =
     (if k = ''__proto__'' then investorCounts else AList.update k v investorCounts)"

definition countInvestor :: "(string \<times> countValue) list \<Rightarrow> string project \<Rightarrow> (string \<times> countValue) list" where
  "countInvestor investorCounts project =
     (let invName = projectInvestor project
      in writeCount investorCounts invName (plusOne (readCount investorCounts invName)))"

text \<open>\<open>count >= minProjectsCount\<close>: a string that is no numeric literal converts to NaN.\<close>

fun countAtLeast :: "countValue \<Rightarrow> nat \<Rightarrow> bool" where
  "countAtLeast (CountNumber n) m = (m \<le> n)"
| "countAtLeast CountString m = False"

text \<open>
  \<open>localeCompare\<close> belongs to the platform and its locale data. The model is the order
  every locale gives ASCII letters: case is ignored first, and of two strings that
  differ in case only the one with the lower-case letter goes first.
\<close>

definition localeCompare :: "string \<Rightarrow> string \<Rightarrow> int" where
  "localeCompare a b =
     (let la = toLowerCase a; lb = toLowerCase b
      in if la < lb then - 1 else if lb < la then 1
         else if b < a then - 1 else if a < b then 1 else 0)"

text \<open>\<open>sort(cmp)\<close> is stable: insertion, each element after those not greater.\<close>

fun insertBy :: "('a \<Rightarrow> 'a \<Rightarrow> int) \<Rightarrow> 'a \<Rightarrow> 'a list \<Rightarrow> 'a list" where
  "insertBy cmp x [] = [x]"
| "insertBy cmp x (y # ys) = (if cmp x y < 0 then x # y # ys else y # insertBy cmp x ys)"

definition sortBy :: "('a \<Rightarrow> 'a \<Rightarrow> int) \<Rightarrow> 'a list \<Rightarrow> 'a list" where
  "sortBy cmp xs = foldl (\<lambda>acc x. insertBy cmp x acc) [] xs"

definition relevantProjects :: "string app_state \<Rightarrow> string project list" where
  "relevantProjects s =
     filter (\<lambda>project.
        (let provinceMatch = (selectedProvince s = ''All'' \<or> province project = selectedProvince s);
             districtMatch = (selectedDistrict s = ''All'' \<or> district project = selectedDistrict s)
         in provinceMatch \<and> districtMatch)) (allProjects s)"

definition investorCounts :: "string app_state \<Rightarrow> (string \<times> countValue) list" where
  "investorCounts s = foldl countInvestor [] (relevantProjects s)"

definition investorsData :: "string app_state \<Rightarrow> (string \<times> countValue) list" where
  "investorsData s =
     sortBy (\<lambda>a b. localeCompare (fst a) (fst b))
       (filter (\<lambda>(n, c). countAtLeast c (minProjectsCount s)) (investorCounts s))"

definition eligibleInvestorNames :: "string app_state \<Rightarrow> string set" where
  "eligibleInvestorNames s = set (map fst (investorsData s))"

subsection \<open>Filtered projects\<close>

definition passesFilter :: "string app_state \<Rightarrow> string project \<Rightarrow> bool" where
  "passesFilter s project =
     (let provinceMatch = (selectedProvince s = ''All'' \<or> province project = selectedProvince s);
          districtMatch = (selectedDistrict s = ''All'' \<or> district project = selectedDistrict s);
          inv = projectInvestor project;
          investorMatch =
            (if selectedInvestor s \<noteq> ''All'' then inv = selectedInvestor s
             else if minProjectsCount s > 0 then True
             else True);
          searchMatch =
            (searchQuery s = [] \<or>
             (name project \<noteq> [] \<and>
              stringIncludes (toLowerCase (name project)) (toLowerCase (searchQuery s))));
          investorSearchMatch =
            (investorSearchQuery s = [] \<or>
             stringIncludes (toLowerCase inv) (toLowerCase (investorSearchQuery s)))
      in provinceMatch \<and> districtMatch \<and> investorMatch \<and> searchMatch \<and> investorSearchMatch)"

definition filtered :: "string app_state \<Rightarrow> string project list" where
  "filtered s = filter (passesFilter s) (allProjects s)"

section \<open>File upload\<close>

text \<open>
  What the platform and the CSV library do is a parameter: \<open>JSON.parse\<close>, whether the
  CSV library can be loaded, and what its \<open>parse\<close> returns. A parse error of the
  library may carry no row.
\<close>

record papa_error =
  row :: "nat option"
  message :: string

record papa_result =
  errors :: "papa_error list"
  data :: "jsval list"

record platform =
  parseJSON :: json_parser
  papaAvailable :: bool
  papaParse :: "string \<Rightarrow> papa_result"

text \<open>An uploaded file; \<open>fileText\<close> is \<open>None\<close> when reading it fails.\<close>

record upload_file =
  fileType :: string
  fileName :: string
  fileText :: "string option"

definition endsWith :: "string \<Rightarrow> string \<Rightarrow> bool" where
  "endsWith s q = suffix q s"

text \<open>How a template literal renders the row of a parse error.\<close>

definition showRow :: "nat option \<Rightarrow> string" where
  "showRow r = (case r of None \<Rightarrow> ''undefined'' | Some n \<Rightarrow> showNat n)"

text \<open>The body of the \<open>try\<close> block, up to the new record set or the error thrown.\<close>

definition processFile :: "platform \<Rightarrow> upload_file \<Rightarrow> string \<Rightarrow> error + jsval project list" where
  "processFile pf file content =
     (if fileType file = ''application/json'' \<or> endsWith (fileName file) ''.json'' then
        (case parseJSON pf content of
           Inl e \<Rightarrow> Inl e
         | Inr jsonData \<Rightarrow>
             (case jsonData of
                JArr items \<Rightarrow> mapItems (parseJSON pf) items
              | _ \<Rightarrow> Inl (Error ''Invalid JSON format. Expected an array of projects.'')))
      else if fileType file = ''text/csv'' \<or> endsWith (fileName file) ''.csv'' then
        (if \<not> papaAvailable pf then Inl (Error ''Failed to load PapaParse library.'')
         else
           (let parsed = papaParse pf content
            in case errors parsed of
                 e # es \<Rightarrow>
                   Inl (Error (''CSV parsing error on row '' @ showRow (row e) @ '': '' @ message e))
               | [] \<Rightarrow> mapItems (parseJSON pf) (data parsed)))
      else Inl (Error ''Unsupported file type. Please upload a .csv or .json file.''))"

definition resetFilters :: "'t app_state \<Rightarrow> 't app_state" where
  "resetFilters s =
     s\<lparr>selectedProvince := ''All'', selectedDistrict := ''All'', selectedInvestor := ''All'',
       minProjectsCount := 0, searchQuery := [], investorSearchQuery := []\<rparr>"

text \<open>
  The outcome of an upload is the message to show or the new record set. On success
  \<open>setAllProjects(newProjects); resetFilters()\<close>, otherwise \<open>setUploadError(message)\<close>.
\<close>

definition uploadOutcome :: "platform \<Rightarrow> upload_file \<Rightarrow> string + jsval project list" where
  "uploadOutcome pf file =
     (case fileText file of
        None \<Rightarrow> Inl ''Failed to read the file.''
      | Some content \<Rightarrow>
          (case processFile pf file content of
             Inl e \<Rightarrow> Inl (errorMessage e)
           | Inr newProjects \<Rightarrow> Inr newProjects))"

definition applyUpload :: "string + 't project list \<Rightarrow> 't app_state \<Rightarrow> 't app_state" where
  "applyUpload outcome s =
     (case outcome of
        Inl msg \<Rightarrow> s\<lparr>uploadError := Some msg\<rparr>
      | Inr newProjects \<Rightarrow> resetFilters (s\<lparr>allProjects := newProjects\<rparr>))"

definition handleFileUpload :: "platform \<Rightarrow> upload_file \<Rightarrow> jsval app_state \<Rightarrow> jsval app_state" where
  "handleFileUpload pf file s = applyUpload (uploadOutcome pf file) (s\<lparr>uploadError := None\<rparr>)"

section \<open>Update cycle\<close>

text \<open>
  The two effects of a render read the state of that render: the reconciliation of the
  selected investor and the recomputation of the filtered list. Their state updates
  are applied together and cause the next render.
\<close>

definition runEffects :: "string app_state \<Rightarrow> string app_state" where
  "runEffects s =
     s\<lparr>selectedInvestor :=
         (if selectedInvestor s \<noteq> ''All'' \<and> selectedInvestor s \<notin> eligibleInvestorNames s
          then ''All'' else selectedInvestor s),
       filteredProjects := filtered s\<rparr>"

text \<open>Rendering and running effects goes on until the state no longer changes.\<close>

definition settleMeasure :: "string app_state \<Rightarrow> nat" where
  "settleMeasure s =
     (if selectedInvestor s \<noteq> ''All'' \<and> selectedInvestor s \<notin> eligibleInvestorNames s then 2
      else if filteredProjects s \<noteq> filtered s then 1 else 0)"

lemma eligibleInvestorNames_runEffects:
  "eligibleInvestorNames (runEffects s) = eligibleInvestorNames s"
  by (simp add: eligibleInvestorNames_def investorsData_def investorCounts_def
      relevantProjects_def runEffects_def)

lemma passesFilter_filteredProjects:
  "passesFilter (s\<lparr>filteredProjects := x\<rparr>) = passesFilter s"
  by (rule ext) (simp add: passesFilter_def)

lemma settleMeasure_runEffects:
  assumes "runEffects s \<noteq> s"
  shows "settleMeasure (runEffects s) < settleMeasure s"
proof (cases "selectedInvestor s \<noteq> ''All'' \<and> selectedInvestor s \<notin> eligibleInvestorNames s")
  case True
  have "selectedInvestor (runEffects s) = ''All''"
    using True by (simp add: runEffects_def)
  then show ?thesis
    using True by (simp add: settleMeasure_def)
next
  case False
  then have sel: "selectedInvestor (runEffects s) = selectedInvestor s"
    by (auto simp add: runEffects_def)
  have same: "filtered (runEffects s) = filtered s"
    using False by (auto simp add: filtered_def passesFilter_filteredProjects runEffects_def)
  have fp: "filteredProjects (runEffects s) = filtered s"
    by (simp add: runEffects_def)
  have stale: "filteredProjects s \<noteq> filtered s"
  proof
    assume "filteredProjects s = filtered s"
    with False have "runEffects s = s"
      by (auto simp add: runEffects_def)
    with assms show False by simp
  qed
  show ?thesis
    using False sel same fp stale
    by (simp add: settleMeasure_def eligibleInvestorNames_runEffects)
qed

function settle :: "string app_state \<Rightarrow> string app_state" where
  "settle s = (let s' = runEffects s in if s' = s then s else settle s')"
  by pat_completeness auto
termination
  by (relation "measure settleMeasure") (auto simp add: settleMeasure_runEffects)

declare settle.simps [simp del]

text \<open>The event handlers of the component.\<close>

datatype event =
    ProvinceChange string
  | DistrictChange string
  | InvestorChange string
  | ShowLabelsChange bool
  | MinProjectsCountChange nat
  | SearchChange string
  | InvestorSearchChange string
  | FileUploaded "string + string project list"
  | DataLoaded "string project list"

text \<open>
  \<open>FileUploaded\<close> carries the outcome of an upload whose records have the declared
  types; \<open>DataLoaded\<close> is the start-up fetch, which only replaces the record set.
\<close>

fun handle :: "event \<Rightarrow> string app_state \<Rightarrow> string app_state" where
  "handle (ProvinceChange v) s = s\<lparr>selectedProvince := v, selectedDistrict := ''All''\<rparr>"
| "handle (DistrictChange v) s = s\<lparr>selectedDistrict := v\<rparr>"
| "handle (InvestorChange v) s = s\<lparr>selectedInvestor := v\<rparr>"
| "handle (ShowLabelsChange v) s = s\<lparr>showLabels := v\<rparr>"
| "handle (MinProjectsCountChange v) s = s\<lparr>minProjectsCount := v\<rparr>"
| "handle (SearchChange v) s = s\<lparr>searchQuery := v\<rparr>"
| "handle (InvestorSearchChange v) s = s\<lparr>investorSearchQuery := v\<rparr>"
| "handle (FileUploaded outcome) s = applyUpload outcome (s\<lparr>uploadError := None\<rparr>)"
| "handle (DataLoaded newProjects) s = s\<lparr>allProjects := newProjects\<rparr>"

text \<open>One update cycle: the handler, then renders and effects until the state is stable.\<close>

definition step :: "event \<Rightarrow> string app_state \<Rightarrow> string app_state" where
  "step e s = settle (handle e s)"

definition initialState :: "string project list \<Rightarrow> string app_state" where
  "initialState projectData =
     \<lparr>allProjects = projectData, filteredProjects = projectData, uploadError = None,
      selectedProvince = ''All'', selectedDistrict = ''All'', selectedInvestor = ''All'',
      showLabels = False, minProjectsCount = 0, searchQuery = [], investorSearchQuery = []\<rparr>"

inductive reachable :: "string project list \<Rightarrow> string app_state \<Rightarrow> bool" for projectData where
  reach_start: "reachable projectData (settle (initialState projectData))"
| reach_step: "reachable projectData s \<Longrightarrow> reachable projectData (step e s)"

section \<open>Price chart\<close>

subsection \<open>Arithmetic on numbers\<close>

text \<open>
  The arithmetic of the language on NaN and the infinities; a zero divisor counts as
  positive zero.
\<close>

definition numAdd :: "number \<Rightarrow> number \<Rightarrow> number" where
  "numAdd x y =
     (case (x, y) of
        (Fin a, Fin b) \<Rightarrow> Fin (a + b)
      | (NaN, _) \<Rightarrow> NaN
      | (_, NaN) \<Rightarrow> NaN
      | (PosInf, NegInf) \<Rightarrow> NaN
      | (NegInf, PosInf) \<Rightarrow> NaN
      | (PosInf, _) \<Rightarrow> PosInf
      | (_, PosInf) \<Rightarrow> PosInf
      | (NegInf, _) \<Rightarrow> NegInf
      | (_, NegInf) \<Rightarrow> NegInf)"

definition numSub :: "number \<Rightarrow> number \<Rightarrow> number" where
  "numSub x y = numAdd x (negate y)"

fun numSign :: "number \<Rightarrow> int" where
  "numSign (Fin a) = (if a = 0 then 0 else if 0 < a then 1 else - 1)"
| "numSign PosInf = 1"
| "numSign NegInf = - 1"
| "numSign NaN = 0"

definition signedInf :: "int \<Rightarrow> number" where
  "signedInf sg = (if sg = 0 then NaN else if 0 < sg then PosInf else NegInf)"

definition numMul :: "number \<Rightarrow> number \<Rightarrow> number" where
  "numMul x y =
     (case (x, y) of
        (Fin a, Fin b) \<Rightarrow> Fin (a * b)
      | (NaN, _) \<Rightarrow> NaN
      | (_, NaN) \<Rightarrow> NaN
      | (_, _) \<Rightarrow> signedInf (numSign x * numSign y))"

definition numDiv :: "number \<Rightarrow> number \<Rightarrow> number" where
  "numDiv x y =
     (case (x, y) of
        (NaN, _) \<Rightarrow> NaN
      | (_, NaN) \<Rightarrow> NaN
      | (Fin a, Fin b) \<Rightarrow> if b \<noteq> 0 then Fin (a / b) else signedInf (numSign x)
      | (Fin a, _) \<Rightarrow> Fin 0
      | (_, Fin b) \<Rightarrow> signedInf (numSign x * (if b < 0 then - 1 else 1))
      | (_, _) \<Rightarrow> NaN)"

definition numLe :: "number \<Rightarrow> number \<Rightarrow> bool" where
  "numLe x y =
     (case (x, y) of
        (Fin a, Fin b) \<Rightarrow> a \<le> b
      | (NaN, _) \<Rightarrow> False
      | (_, NaN) \<Rightarrow> False
      | (NegInf, _) \<Rightarrow> True
      | (_, PosInf) \<Rightarrow> True
      | (_, _) \<Rightarrow> False)"

text \<open>\<open>Math.min(...xs)\<close> and \<open>Math.max(...xs)\<close>: NaN when an argument is NaN.\<close>

definition numMin :: "number \<Rightarrow> number \<Rightarrow> number" where
  "numMin x y = (if x = NaN \<or> y = NaN then NaN else if numLe x y then x else y)"

definition numMax :: "number \<Rightarrow> number \<Rightarrow> number" where
  "numMax x y = (if x = NaN \<or> y = NaN then NaN else if numLe x y then y else x)"

definition mathMin :: "number list \<Rightarrow> number" where
  "mathMin xs = foldl numMin PosInf xs"

definition mathMax :: "number list \<Rightarrow> number" where
  "mathMax xs = foldl numMax NegInf xs"

subsection \<open>Coordinates\<close>

text \<open>
  The interface \<open>PriceHistory\<close>. An element of a series may be \<open>null\<close> (\<open>None\<close>), which
  the component filters out before taking the minimum and the maximum and which
  arithmetic reads as 0.
\<close>

record price_history =
  labels :: "string list"
  avg :: "number option list"
  minSeries :: "number option list"
  maxSeries :: "number option list"

definition toNumber :: "number option \<Rightarrow> number" where
  "toNumber v = (case v of None \<Rightarrow> Fin 0 | Some x \<Rightarrow> x)"

definition width :: rat where "width = 500"
definition height :: rat where "height = 300"
definition padding :: rat where "padding = 30"
definition chartWidth :: rat where "chartWidth = width - padding * 2"
definition chartHeight :: rat where "chartHeight = height - padding * 2"

definition allValues :: "price_history \<Rightarrow> number list" where
  "allValues d = map the (filter (\<lambda>v. v \<noteq> None) (minSeries d @ maxSeries d @ avg d))"

definition minValue :: "price_history \<Rightarrow> number" where
  "minValue d = numMul (mathMin (allValues d)) (Fin (9 / 10))"

definition maxValue :: "price_history \<Rightarrow> number" where
  "maxValue d = numMul (mathMax (allValues d)) (Fin (11 / 10))"

definition valueRange :: "price_history \<Rightarrow> number" where
  "valueRange d = numSub (maxValue d) (minValue d)"

definition getX :: "price_history \<Rightarrow> nat \<Rightarrow> number" where
  "getX d index =
     numAdd (Fin padding)
       (numMul (numDiv (Fin (of_nat index)) (numSub (Fin (of_nat (length (labels d)))) (Fin 1)))
          (Fin chartWidth))"

definition getY :: "price_history \<Rightarrow> number option \<Rightarrow> number" where
  "getY d v =
     numSub (numSub (Fin height) (Fin padding))
       (numMul (numDiv (numSub (toNumber v) (minValue d)) (valueRange d)) (Fin chartHeight))"

datatype pathCommand = MoveTo | LineTo

definition createPath :: "price_history \<Rightarrow> number option list \<Rightarrow> (pathCommand \<times> number \<times> number) list" where
  "createPath d vs =
     map (\<lambda>(index, val). (if index = 0 then MoveTo else LineTo, getX d index, getY d val))
       (enumerate 0 vs)"

section \<open>Specification and examples\<close>

text \<open>
  The properties of the specification, worded as definitions of their own, and the
  concrete inputs on which the theorems are exercised.
\<close>

subsection \<open>Example records\<close>

definition projectA :: "string project" where
  "projectA =
     \<lparr>name = ''Alpha Tower'', projectUrl = ''#'', province = ''Dong Nai'', district = ''Bien Hoa'',
      category = ''N/A'', latitude = Some (Fin 10), longitude = Some (Fin 106),
      area = ''N/A'', units = ''N/A'', towers = ''N/A'', investor = ''Eco Corp'',
      attributes = JObj [], priceHistory = JNull\<rparr>"

definition projectB :: "string project" where
  "projectB =
     \<lparr>name = ''Beta Park'', projectUrl = ''#'', province = ''Dong Nai'', district = ''Bien Hoa'',
      category = ''N/A'', latitude = None, longitude = None,
      area = ''N/A'', units = ''N/A'', towers = ''N/A'', investor = ''  '',
      attributes = JObj [], priceHistory = JNull\<rparr>"

definition projectC :: "string project" where
  "projectC =
     \<lparr>name = ''Gamma'', projectUrl = ''#'', province = ''HCM'', district = ''Q1'',
      category = ''N/A'', latitude = Some (Fin 0), longitude = Some (Fin 106),
      area = ''N/A'', units = ''N/A'', towers = ''N/A'', investor = ''Eco Corp'',
      attributes = JObj [], priceHistory = JNull\<rparr>"

definition projectD :: "string project" where
  "projectD =
     \<lparr>name = ''Delta'', projectUrl = ''#'', province = ''Ha Noi'', district = ''Ba Dinh'',
      category = ''N/A'', latitude = Some (Fin 21), longitude = Some (Fin 105),
      area = ''N/A'', units = ''N/A'', towers = ''N/A'', investor = ''constructor'',
      attributes = JObj [], priceHistory = JNull\<rparr>"

subsection \<open>Filtered project list\<close>

text \<open>
  The five conditions as the specification words them: a blank investor counts as
  \<open>N/A\<close>, and a query is contained in a text when its lower-case form occurs in the
  lower-case form of the text.
\<close>

definition blank :: "string \<Rightarrow> bool" where
  "blank v = list_all isWhiteSpace v"

definition normalizedInvestorName :: "string \<Rightarrow> string" where
  "normalizedInvestorName v = (if blank v then ''N/A'' else v)"




subsection \<open>Properties of the normalizer\<close>








definition csvRow :: jsval where
  "csvRow =
     JObj [(key_TenDuAn, JStr ''Eco''), (''lat'', JStr ''10.5''), (''long'', JStr ''abc''),
           (''Attributes (Other)'', JStr ''{broken'')]"

subsection \<open>Zero coordinates\<close>




subsection \<open>Investor roster\<close>

text \<open>
  The normalized investor names of the records in the selected province and district,
  as the specification words the scope of the roster.
\<close>

definition scopedNames :: "string app_state \<Rightarrow> string list" where
  "scopedNames s =
     map normalizedInvestorName
       (map investor
          (filter (\<lambda>p. (selectedProvince s = ''All'' \<or> province p = selectedProvince s) \<and>
                        (selectedDistrict s = ''All'' \<or> district p = selectedDistrict s))
             (allProjects s)))"

text \<open>The value under a name after \<open>k\<close> more records of that name were counted.\<close>

fun tallied :: "countValue option \<Rightarrow> nat \<Rightarrow> countValue option" where
  "tallied v 0 = v"
| "tallied None (Suc k) = Some (CountNumber (Suc k))"
| "tallied (Some (CountNumber m)) (Suc k) = Some (CountNumber (m + Suc k))"
| "tallied (Some CountString) (Suc k) = Some CountString"

subsection \<open>Selection reconciliation\<close>

text \<open>The selected investor is \<open>All\<close> or a name of the current roster.\<close>

definition validSelection :: "string app_state \<Rightarrow> bool" where
  "validSelection s = (selectedInvestor s = ''All'' \<or> selectedInvestor s \<in> eligibleInvestorNames s)"

definition cycleState :: "string app_state" where
  "cycleState =
     (initialState [projectA, projectB, projectC])
       \<lparr>selectedInvestor := ''N/A'', filteredProjects := [projectB]\<rparr>"

subsection \<open>Upload outcomes\<close>

definition jsonFile :: "upload_file \<Rightarrow> bool" where
  "jsonFile file = (fileType file = ''application/json'' \<or> endsWith (fileName file) ''.json'')"

definition csvFile :: "upload_file \<Rightarrow> bool" where
  "csvFile file = (fileType file = ''text/csv'' \<or> endsWith (fileName file) ''.csv'')"

definition isArray :: "jsval \<Rightarrow> bool" where
  "isArray v = (case v of JArr items \<Rightarrow> True | _ \<Rightarrow> False)"

text \<open>Example uploads, on a platform whose CSV parser reports an error in row 3.\<close>

definition ecoRecord :: "jsval project" where
  "ecoRecord =
     \<lparr>name = JStr ''Eco'', projectUrl = JStr ''#'', province = JStr ''N/A'',
      district = JStr ''N/A'', category = JStr ''N/A'', latitude = Some (Fin (21 / 2)),
      longitude = None, area = JStr ''N/A'', units = JStr ''N/A'', towers = JStr ''N/A'',
      investor = JStr ''N/A'', attributes = JObj [], priceHistory = JNull\<rparr>"

definition examplePlatform :: platform where
  "examplePlatform =
     \<lparr>parseJSON = (\<lambda>v. if v = ''[row]'' then Inr (JArr [csvRow]) else
                       if v = ''{}'' then Inr (JObj []) else Inl (SyntaxError ''Unexpected token'')),
      papaAvailable = True,
      papaParse = (\<lambda>v. \<lparr>errors = [\<lparr>row = Some 3, message = ''X''\<rparr>], data = []\<rparr>)\<rparr>"

definition busyState :: "jsval app_state" where
  "busyState =
     \<lparr>allProjects = [ecoRecord, ecoRecord], filteredProjects = [ecoRecord], uploadError = None,
      selectedProvince = ''Dong Nai'', selectedDistrict = ''Bien Hoa'', selectedInvestor = ''N/A'',
      showLabels = True, minProjectsCount = 2, searchQuery = ''eco'', investorSearchQuery = ''n''\<rparr>"

definition csvUpload :: upload_file where
  "csvUpload = \<lparr>fileType = ''text/csv'', fileName = ''projects.csv'', fileText = Some ''a,b''\<rparr>"

definition jsonUpload :: upload_file where
  "jsonUpload = \<lparr>fileType = '''', fileName = ''projects.json'', fileText = Some ''[row]''\<rparr>"

definition objectUpload :: upload_file where
  "objectUpload = \<lparr>fileType = ''application/json'', fileName = ''projects'', fileText = Some ''{}''\<rparr>"

definition textUpload :: upload_file where
  "textUpload = \<lparr>fileType = ''text/plain'', fileName = ''projects.txt'', fileText = Some ''a''\<rparr>"

definition lostUpload :: upload_file where
  "lostUpload = \<lparr>fileType = ''text/csv'', fileName = ''projects.csv'', fileText = None\<rparr>"

subsection \<open>Chart coordinates\<close>

text \<open>The series of the specification's example, and a series of one period.\<close>

definition history :: price_history where
  "history =
     \<lparr>labels = [''2020'', ''2021''], avg = [Some (Fin 15), Some (Fin 18)],
      minSeries = [Some (Fin 10), Some (Fin 12)], maxSeries = [Some (Fin 20), Some (Fin 22)]\<rparr>"

definition singlePoint :: price_history where
  "singlePoint =
     \<lparr>labels = [''2020''], avg = [Some (Fin 15)], minSeries = [Some (Fin 10)],
      maxSeries = [Some (Fin 20)]\<rparr>"




section \<open>Evaluation on concrete inputs\<close>

text \<open>Facts that let the simplifier compute with characters, keys and decimal literals.\<close>

lemma char_eq_char_of: "c = char_of (n::nat) \<longleftrightarrow> take_bit 8 n = of_char c"
  by (metis char_of_eq_iff)

lemmas char_eval = char_of_eq_iff char_eq_char_of less_char_def less_eq_char_def

lemmas key_defs = key_TenDuAn_def key_URLDuAn_def key_Cap2_def key_Cap3_def key_Cap4_def
  key_DienTich_def key_SoCan_def key_SoToa_def key_ChuDauTu_def

lemmas parse_defs = parseFloatString_def parseUnsigned_def isWhiteSpace_def startsWith_def
  isDigit_def digitsValue_def parseExponent_def scale10_def

section \<open>Filtered project list\<close>

lemma trim_empty_iff: "trim v = [] \<longleftrightarrow> list_all isWhiteSpace v"
proof -
  have "trim v = [] \<longleftrightarrow> dropWhile isWhiteSpace (rev (dropWhile isWhiteSpace v)) = []"
    by (simp add: trim_def)
  also have "\<dots> \<longleftrightarrow> (\<forall>c \<in> set (dropWhile isWhiteSpace v). isWhiteSpace c)"
    by simp
  also have "\<dots> \<longleftrightarrow> dropWhile isWhiteSpace v = []"
  proof
    assume all: "\<forall>c \<in> set (dropWhile isWhiteSpace v). isWhiteSpace c"
    show "dropWhile isWhiteSpace v = []"
    proof (rule ccontr)
      assume ne: "dropWhile isWhiteSpace v \<noteq> []"
      then have "\<not> isWhiteSpace (hd (dropWhile isWhiteSpace v))"
        by (rule hd_dropWhile)
      moreover have "hd (dropWhile isWhiteSpace v) \<in> set (dropWhile isWhiteSpace v)"
        using ne by simp
      ultimately show False using all by blast
    qed
  next
    assume "dropWhile isWhiteSpace v = []"
    then show "\<forall>c \<in> set (dropWhile isWhiteSpace v). isWhiteSpace c"
      by (simp del: dropWhile_eq_Nil_conv)
  qed
  also have "\<dots> \<longleftrightarrow> list_all isWhiteSpace v"
    by (simp add: list_all_iff)
  finally show ?thesis .
qed

lemma projectInvestor_normalized:
  "projectInvestor p = normalizedInvestorName (investor p)"
  by (auto simp add: projectInvestor_def normalizedInvestorName_def blank_def trim_empty_iff)







section \<open>Properties of the normalizer\<close>













section \<open>Zero coordinates\<close>









section \<open>Province list\<close>







section \<open>Investor roster\<close>

lemma tallied_add: "tallied (tallied v a) b = tallied v (a + b)"
proof (cases v)
  case None
  then show ?thesis by (cases a; cases b; simp)
next
  case (Some x)
  then show ?thesis by (cases x; cases a; cases b; simp)
qed

lemma map_of_countInvestor_ordinary:
  assumes "n \<notin> set objectPrototypeNames"
  shows "map_of (countInvestor acc p) n =
           (if projectInvestor p = n then tallied (map_of acc n) 1 else map_of acc n)"
proof (cases "projectInvestor p = n")
  case True
  have np: "n \<noteq> ''__proto__''"
    using assms by (auto simp add: objectPrototypeNames_def)
  show ?thesis
  proof (cases "map_of acc n")
    case None
    then show ?thesis
      using True np assms
      by (simp add: countInvestor_def Let_def writeCount_def readCount_def update_conv)
  next
    case (Some v)
    then show ?thesis
      using True np
      by (cases v) (simp_all add: countInvestor_def Let_def writeCount_def readCount_def update_conv)
  qed
next
  case False
  then show ?thesis
    by (simp add: countInvestor_def Let_def writeCount_def update_conv)
qed

lemma map_of_foldl_ordinary:
  assumes "n \<notin> set objectPrototypeNames"
  shows "map_of (foldl countInvestor acc ps) n =
           tallied (map_of acc n) (count_list (map projectInvestor ps) n)"
proof (induction ps arbitrary: acc)
  case Nil
  then show ?case by simp
next
  case (Cons p ps)
  show ?case
    using Cons.IH [of "countInvestor acc p"] map_of_countInvestor_ordinary [OF assms, of acc p]
    by (simp add: tallied_add)
qed

lemma map_of_countInvestor_inherited:
  assumes "n \<in> set objectPrototypeNames" and "\<forall>c. map_of acc n \<noteq> Some (CountNumber c)"
  shows "\<forall>c. map_of (countInvestor acc p) n \<noteq> Some (CountNumber c)"
proof (cases "projectInvestor p = n \<and> n \<noteq> ''__proto__''")
  case True
  show ?thesis
  proof (cases "map_of acc n")
    case None
    then show ?thesis
      using True assms
      by (simp add: countInvestor_def Let_def writeCount_def readCount_def update_conv)
  next
    case (Some v)
    then show ?thesis
      using True assms
      by (cases v) (simp_all add: countInvestor_def Let_def writeCount_def readCount_def update_conv)
  qed
next
  case False
  then show ?thesis
    using assms by (auto simp add: countInvestor_def Let_def writeCount_def update_conv)
qed

lemma map_of_foldl_inherited:
  assumes "n \<in> set objectPrototypeNames"
  shows "(\<forall>c. map_of acc n \<noteq> Some (CountNumber c)) \<Longrightarrow>
         (\<forall>c. map_of (foldl countInvestor acc ps) n \<noteq> Some (CountNumber c))"
proof (induction ps arbitrary: acc)
  case Nil
  then show ?case by simp
next
  case (Cons p ps)
  show ?case
    using Cons.IH [OF map_of_countInvestor_inherited [OF assms Cons.prems, of p]] by simp
qed

lemma distinct_countInvestor:
  "distinct (map fst acc) \<Longrightarrow> distinct (map fst (countInvestor acc p))"
  by (simp add: countInvestor_def Let_def writeCount_def distinct_update)

lemma distinct_foldl_countInvestor:
  "distinct (map fst acc) \<Longrightarrow> distinct (map fst (foldl countInvestor acc ps))"
  by (induction ps arbitrary: acc) (simp_all add: distinct_countInvestor)

lemma set_insertBy: "set (insertBy cmp x xs) = insert x (set xs)"
  by (induction xs) auto

lemma length_insertBy: "length (insertBy cmp x xs) = Suc (length xs)"
  by (induction xs) auto

lemma sortBy_foldl:
  "set (foldl (\<lambda>acc x. insertBy cmp x acc) acc xs) = set acc \<union> set xs
   \<and> length (foldl (\<lambda>acc x. insertBy cmp x acc) acc xs) = length acc + length xs"
  by (induction xs arbitrary: acc) (auto simp add: set_insertBy length_insertBy)

lemma set_sortBy: "set (sortBy cmp xs) = set xs"
  using sortBy_foldl [of cmp "[]" xs] by (simp add: sortBy_def)

lemma length_sortBy: "length (sortBy cmp xs) = length xs"
  using sortBy_foldl [of cmp "[]" xs] by (simp add: sortBy_def)

lemma scopedNames_relevant: "scopedNames s = map projectInvestor (relevantProjects s)"
  by (simp add: scopedNames_def relevantProjects_def Let_def projectInvestor_normalized comp_def)

lemma investorCounts_entry:
  "(n, c) \<in> set (investorCounts s) \<longleftrightarrow>
     (if n \<in> set objectPrototypeNames
      then c = CountString \<and> (n, c) \<in> set (investorCounts s)
      else n \<in> set (scopedNames s) \<and> c = CountNumber (count_list (scopedNames s) n))"
proof -
  have d: "distinct (map fst (investorCounts s))"
    by (simp add: investorCounts_def distinct_foldl_countInvestor)
  have m: "(n, c) \<in> set (investorCounts s) \<longleftrightarrow> map_of (investorCounts s) n = Some c"
    using d by simp
  show ?thesis
  proof (cases "n \<in> set objectPrototypeNames")
    case True
    have "\<forall>k. map_of (investorCounts s) n \<noteq> Some (CountNumber k)"
      unfolding investorCounts_def by (rule map_of_foldl_inherited [OF True]) simp
    then show ?thesis
      using True m by (cases c) auto
  next
    case False
    have "map_of (investorCounts s) n = tallied None (count_list (scopedNames s) n)"
      by (simp add: investorCounts_def map_of_foldl_ordinary [OF False] scopedNames_relevant)
    then show ?thesis
      using False m count_list_0_iff [of "scopedNames s" n]
      by (cases "count_list (scopedNames s) n") auto
  qed
qed

text \<open>
  What the roster holds, for every record set: the scoped names that are no names of
  members of \<open>Object.prototype\<close>, each with its number of records, when that number
  reaches the minimum.
\<close>

lemma investorsData_exact:
  "set (investorsData s) =
     {(n, CountNumber (count_list (scopedNames s) n)) | n.
        n \<in> set (scopedNames s) \<and> n \<notin> set objectPrototypeNames \<and>
        minProjectsCount s \<le> count_list (scopedNames s) n}"
  (is "?L = ?R")
proof (rule set_eqI)
  fix e :: "string \<times> countValue"
  obtain n c where e: "e = (n, c)" by (cases e)
  have "e \<in> ?L \<longleftrightarrow> (n, c) \<in> set (investorCounts s) \<and> countAtLeast c (minProjectsCount s)"
    by (simp add: investorsData_def set_sortBy e)
  also have "\<dots> \<longleftrightarrow> e \<in> ?R"
    using investorCounts_entry [of n c s] by (auto simp add: e split: if_splits)
  finally show "e \<in> ?L \<longleftrightarrow> e \<in> ?R" .
qed

text \<open>Raising the minimum never makes the roster longer.\<close>

lemma investorsData_monotone:
  assumes "t1 \<le> t2"
  shows "length (investorsData (s\<lparr>minProjectsCount := t2\<rparr>))
           \<le> length (investorsData (s\<lparr>minProjectsCount := t1\<rparr>))"
proof -
  have c: "investorCounts (s\<lparr>minProjectsCount := t2\<rparr>) = investorCounts (s\<lparr>minProjectsCount := t1\<rparr>)"
    by (simp add: investorCounts_def relevantProjects_def)
  have i: "countAtLeast c t2 \<Longrightarrow> countAtLeast c t1" for c
    using assms by (cases c) auto
  have "length (filter (\<lambda>(n, c). countAtLeast c t2) xs) \<le> length (filter (\<lambda>(n, c). countAtLeast c t1) xs)"
    for xs :: "(string \<times> countValue) list"
    by (induction xs) (auto dest: i)
  then show ?thesis
    by (simp add: investorsData_def length_sortBy c)
qed

text \<open>The roster does not depend on the selected investor or on the search texts.\<close>

lemma investorsData_scope:
  "investorsData (s\<lparr>selectedInvestor := i, investorSearchQuery := q, searchQuery := q'\<rparr>) = investorsData s"
  by (simp add: investorsData_def investorCounts_def relevantProjects_def)

text \<open>The scenario of the specification: two records of one province, minimum 1.\<close>

lemma rosterExample:
  "investorsData ((initialState [projectA, projectB, projectC])
      \<lparr>selectedProvince := ''Dong Nai'', minProjectsCount := 1\<rparr>)
   = [(''Eco Corp'', CountNumber 1), (''N/A'', CountNumber 1)]"
  by (simp add: investorsData_def investorCounts_def relevantProjects_def initialState_def
      countInvestor_def readCount_def writeCount_def objectPrototypeNames_def plusOne.simps
      projectInvestor_def trim_def isWhiteSpace_def sortBy_def localeCompare_def
      toLowerCase_def toLowerChar_def char_eval projectA_def projectB_def projectC_def Let_def)

text \<open>
  C3. The claim fails on the code for an investor whose name is that of a member of
  \<open>Object.prototype\<close>: the record of investor \<open>constructor\<close> is in scope and the
  minimum is 0, yet the name is stored with a string and dropped from the roster.
\<close>

theorem investorsData_inherited_name:
  "projectInvestor projectD = ''constructor''
   \<and> relevantProjects (initialState [projectA, projectD]) = [projectA, projectD]
   \<and> minProjectsCount (initialState [projectA, projectD]) = 0
   \<and> investorCounts (initialState [projectA, projectD])
       = [(''Eco Corp'', CountNumber 1), (''constructor'', CountString)]
   \<and> investorsData (initialState [projectA, projectD]) = [(''Eco Corp'', CountNumber 1)]"
  by (simp add: investorsData_def investorCounts_def relevantProjects_def initialState_def
      countInvestor_def readCount_def writeCount_def objectPrototypeNames_def
      projectInvestor_def trim_def isWhiteSpace_def sortBy_def
      projectA_def projectD_def Let_def)

section \<open>Selection reconciliation\<close>

lemma filtered_independent:
  "filtered (s\<lparr>filteredProjects := x\<rparr>) = filtered s"
  by (simp add: filtered_def passesFilter_filteredProjects)

lemma eligibleInvestorNames_independent:
  "eligibleInvestorNames (s\<lparr>selectedInvestor := i, filteredProjects := x\<rparr>) = eligibleInvestorNames s"
  by (simp add: eligibleInvestorNames_def investorsData_def investorCounts_def relevantProjects_def)

lemma runEffects_valid:
  "validSelection s \<Longrightarrow> runEffects s = s\<lparr>filteredProjects := filtered s\<rparr>"
  by (auto simp add: validSelection_def runEffects_def)

lemma validSelection_runEffects: "validSelection (runEffects s)"
  by (auto simp add: validSelection_def runEffects_def eligibleInvestorNames_independent)

lemma runEffects_stable:
  "runEffects (runEffects (runEffects s)) = runEffects (runEffects s)"
proof -
  let ?s1 = "runEffects s"
  have v1: "validSelection ?s1" by (rule validSelection_runEffects)
  have s2: "runEffects ?s1 = ?s1\<lparr>filteredProjects := filtered ?s1\<rparr>"
    by (rule runEffects_valid [OF v1])
  have v2: "validSelection (runEffects ?s1)" by (rule validSelection_runEffects)
  have "runEffects (runEffects ?s1) = (runEffects ?s1)\<lparr>filteredProjects := filtered (runEffects ?s1)\<rparr>"
    by (rule runEffects_valid [OF v2])
  also have "\<dots> = runEffects ?s1"
    by (simp add: s2 filtered_independent)
  finally show ?thesis .
qed

lemma settle_fixed: "runEffects s = s \<Longrightarrow> settle s = s"
  by (simp add: settle.simps [of s])

text \<open>Two rounds of effects always reach the stable state.\<close>

lemma settle_twice: "settle s = runEffects (runEffects s)"
proof (cases "runEffects s = s")
  case True
  then show ?thesis by (simp add: settle_fixed)
next
  case False
  then have a: "settle s = settle (runEffects s)"
    by (simp add: settle.simps [of s] Let_def)
  show ?thesis
  proof (cases "runEffects (runEffects s) = runEffects s")
    case True
    then show ?thesis using a by (simp add: settle_fixed)
  next
    case False
    then have "settle (runEffects s) = settle (runEffects (runEffects s))"
      by (simp add: settle.simps [of "runEffects s"] Let_def)
    then show ?thesis
      using a by (simp add: settle_fixed runEffects_stable)
  qed
qed

lemma selectedInvestor_settle:
  "selectedInvestor (settle s) =
     (if selectedInvestor s \<noteq> ''All'' \<and> selectedInvestor s \<notin> eligibleInvestorNames s
      then ''All'' else selectedInvestor s)"
  by (auto simp add: settle_twice runEffects_def eligibleInvestorNames_independent)

lemma eligibleInvestorNames_settle: "eligibleInvestorNames (settle s) = eligibleInvestorNames s"
  by (simp add: settle_twice eligibleInvestorNames_runEffects)

lemma validSelection_settle: "validSelection (settle s)"
  by (simp add: settle_twice validSelection_runEffects)

lemma filteredProjects_settle: "filteredProjects (settle s) = filtered (settle s)"
proof -
  have v: "validSelection (runEffects s)" by (rule validSelection_runEffects)
  show ?thesis
    by (simp add: settle_twice runEffects_valid [OF v] filtered_independent)
qed

text \<open>
  C7. After every update cycle (a handler, then renders and effects until nothing
  changes) the selected investor is \<open>All\<close> or a name of the current roster; when the
  handler leaves a selection that the roster no longer holds, the cycle ends with the
  selection \<open>All\<close>, the roster is the one the handler produced, and the filtered list
  is the one of the final selection.
\<close>

theorem selection_reconciled:
  "(reachable projectData s \<longrightarrow>
      selectedInvestor s = ''All'' \<or> selectedInvestor s \<in> eligibleInvestorNames s)
   \<and> (selectedInvestor (handle e s) \<noteq> ''All'' \<and>
        selectedInvestor (handle e s) \<notin> eligibleInvestorNames (handle e s) \<longrightarrow>
        selectedInvestor (step e s) = ''All'')
   \<and> eligibleInvestorNames (step e s) = eligibleInvestorNames (handle e s)
   \<and> filteredProjects (step e s) = filtered (step e s)"
proof (intro conjI impI)
  assume "reachable projectData s"
  then have "validSelection s"
    by (induction rule: reachable.induct) (simp_all add: step_def validSelection_settle)
  then show "selectedInvestor s = ''All'' \<or> selectedInvestor s \<in> eligibleInvestorNames s"
    by (simp add: validSelection_def)
next
  assume "selectedInvestor (handle e s) \<noteq> ''All'' \<and>
        selectedInvestor (handle e s) \<notin> eligibleInvestorNames (handle e s)"
  then show "selectedInvestor (step e s) = ''All''"
    by (simp add: step_def selectedInvestor_settle)
next
  show "eligibleInvestorNames (step e s) = eligibleInvestorNames (handle e s)"
    by (simp add: step_def eligibleInvestorNames_settle)
next
  show "filteredProjects (step e s) = filtered (step e s)"
    by (simp add: step_def filteredProjects_settle)
qed

text \<open>
  A run: the investor \<open>N/A\<close> is selected, then the minimum is raised to 2, which
  removes \<open>N/A\<close> from the roster.
\<close>

lemmas roster_eval = eligibleInvestorNames_def investorsData_def investorCounts_def
  relevantProjects_def countInvestor_def readCount_def writeCount_def objectPrototypeNames_def
  projectInvestor_def trim_def isWhiteSpace_def sortBy_def localeCompare_def toLowerCase_def
  toLowerChar_def char_eval Let_def

lemmas filter_eval = filtered_def passesFilter_def projectInvestor_def trim_def isWhiteSpace_def
  toLowerCase_def toLowerChar_def char_eval Let_def

lemma cycleState_start:
  "settle (initialState [projectA, projectB, projectC]) = initialState [projectA, projectB, projectC]"
proof -
  have "runEffects (initialState [projectA, projectB, projectC]) = initialState [projectA, projectB, projectC]"
    by (simp add: runEffects_def initialState_def filter_eval)
  then show ?thesis by (rule settle_fixed)
qed

lemma cycleState_roster:
  "eligibleInvestorNames ((initialState [projectA, projectB, projectC])\<lparr>selectedInvestor := ''N/A''\<rparr>)
     = {''Eco Corp'', ''N/A''}"
  by (simp add: initialState_def roster_eval projectA_def projectB_def projectC_def) 

lemma cycleState_step:
  "step (InvestorChange ''N/A'') (initialState [projectA, projectB, projectC]) = cycleState"
proof -
  let ?h = "(initialState [projectA, projectB, projectC])\<lparr>selectedInvestor := ''N/A''\<rparr>"
  have f: "filtered ?h = [projectB]"
    by (simp add: initialState_def filter_eval projectA_def projectB_def projectC_def)
  have r: "runEffects ?h = cycleState"
    by (simp add: runEffects_def cycleState_roster f cycleState_def)
  have v: "validSelection (runEffects ?h)" by (rule validSelection_runEffects)
  have "runEffects cycleState = cycleState"
    using runEffects_valid [OF v] f
    by (simp add: r filtered_independent) (simp add: cycleState_def filtered_independent f)
  then show ?thesis
    by (simp add: step_def settle_twice r)
qed

lemma cycleState_raised:
  "eligibleInvestorNames (handle (MinProjectsCountChange 2) cycleState) = {''Eco Corp''}"
  by (simp add: cycleState_def initialState_def roster_eval projectA_def projectB_def projectC_def)

text \<open>The theorem of C7 on that run.\<close>

theorem selection_reconciled_witness:
  "reachable [projectA, projectB, projectC] cycleState
   \<and> selectedInvestor cycleState = ''N/A''
   \<and> selectedInvestor (handle (MinProjectsCountChange 2) cycleState) = ''N/A''
   \<and> eligibleInvestorNames (handle (MinProjectsCountChange 2) cycleState) = {''Eco Corp''}
   \<and> selectedInvestor (step (MinProjectsCountChange 2) cycleState) = ''All''
   \<and> eligibleInvestorNames (step (MinProjectsCountChange 2) cycleState) = {''Eco Corp''}"
proof -
  have "reachable [projectA, projectB, projectC] (settle (initialState [projectA, projectB, projectC]))"
    by (rule reachable.reach_start)
  then have "reachable [projectA, projectB, projectC]
      (step (InvestorChange ''N/A'') (initialState [projectA, projectB, projectC]))"
    unfolding cycleState_start by (rule reachable.reach_step)
  then have r: "reachable [projectA, projectB, projectC] cycleState"
    by (simp only: cycleState_step)
  have s: "selectedInvestor cycleState = ''N/A''"
    "selectedInvestor (handle (MinProjectsCountChange 2) cycleState) = ''N/A''"
    by (simp_all add: cycleState_def)
  show ?thesis
    using selection_reconciled [of "[projectA, projectB, projectC]" cycleState
        "MinProjectsCountChange 2"] r s cycleState_raised
    by simp
qed

section \<open>Upload outcomes\<close>

lemma handleFileUpload_failure:
  "uploadOutcome pf file = Inl msg \<Longrightarrow> handleFileUpload pf file s = s\<lparr>uploadError := Some msg\<rparr>"
  by (simp add: handleFileUpload_def applyUpload_def)

lemma uploadOutcome_unreadable:
  "fileText file = None \<Longrightarrow> uploadOutcome pf file = Inl ''Failed to read the file.''"
  by (simp add: uploadOutcome_def)

lemma uploadOutcome_not_array:
  assumes "fileText file = Some content" and "jsonFile file"
    and "parseJSON pf content = Inr v" and "\<not> isArray v"
  shows "uploadOutcome pf file = Inl ''Invalid JSON format. Expected an array of projects.''"
  using assms
  by (cases v) (simp_all add: uploadOutcome_def processFile_def jsonFile_def isArray_def)

lemma uploadOutcome_csv_error:
  assumes "fileText file = Some content" and "\<not> jsonFile file" and "csvFile file"
    and "papaAvailable pf" and "errors (papaParse pf content) = e # es"
  shows "uploadOutcome pf file =
           Inl (''CSV parsing error on row '' @ showRow (row e) @ '': '' @ message e)"
  using assms
  by (simp add: uploadOutcome_def processFile_def jsonFile_def csvFile_def Let_def)

lemma uploadOutcome_unsupported:
  assumes "fileText file = Some content" and "\<not> jsonFile file" and "\<not> csvFile file"
  shows "uploadOutcome pf file = Inl ''Unsupported file type. Please upload a .csv or .json file.''"
  using assms
  by (simp add: uploadOutcome_def processFile_def jsonFile_def csvFile_def)

text \<open>
  C8. An upload that fails changes nothing but the error message: the record set and
  every filter stay as they were. The message is fixed for an unreadable file, for JSON
  that is not an array and for an unsupported type, and names the row and the reason
  of the first error of the CSV parser.
\<close>

theorem upload_failure_atomic:
  "(uploadOutcome pf file = Inl msg \<longrightarrow>
      handleFileUpload pf file s = s\<lparr>uploadError := Some msg\<rparr>)
   \<and> (fileText file = None \<longrightarrow> uploadOutcome pf file = Inl ''Failed to read the file.'')
   \<and> (fileText file = Some content \<and> jsonFile file \<and> parseJSON pf content = Inr v \<and> \<not> isArray v \<longrightarrow>
        uploadOutcome pf file = Inl ''Invalid JSON format. Expected an array of projects.'')
   \<and> (fileText file = Some content \<and> \<not> jsonFile file \<and> csvFile file \<and> papaAvailable pf \<and>
        errors (papaParse pf content) = e # es \<longrightarrow>
        uploadOutcome pf file =
          Inl (''CSV parsing error on row '' @ showRow (row e) @ '': '' @ message e))
   \<and> (fileText file = Some content \<and> \<not> jsonFile file \<and> \<not> csvFile file \<longrightarrow>
        uploadOutcome pf file = Inl ''Unsupported file type. Please upload a .csv or .json file.'')"
  using handleFileUpload_failure [of pf "file" msg s] uploadOutcome_unreadable [of "file" pf]
    uploadOutcome_not_array [of "file" content pf v]
    uploadOutcome_csv_error [of "file" content pf e es]
    uploadOutcome_unsupported [of "file" content pf]
  by blast

text \<open>
  C10. An upload that succeeds replaces the record set, clears the error and sets every
  filter to its default; the label flag is left as it was (and so is the filtered list,
  until the effects run).
\<close>

theorem upload_success_resets:
  "uploadOutcome pf file = Inr newProjects \<longrightarrow>
     handleFileUpload pf file s =
       s\<lparr>allProjects := newProjects, uploadError := None,
         selectedProvince := ''All'', selectedDistrict := ''All'', selectedInvestor := ''All'',
         minProjectsCount := 0, searchQuery := [], investorSearchQuery := []\<rparr>
     \<and> showLabels (handleFileUpload pf file s) = showLabels s
     \<and> filteredProjects (handleFileUpload pf file s) = filteredProjects s"
  by (simp add: handleFileUpload_def applyUpload_def resetFilters_def)

lemma showNat_3: "showNat 3 = ''3''"
  by (simp add: showNat.simps [of 3] digitChar_def char_eval)

lemma suffix_eval: "suffix q v = prefix (rev q) (rev v)"
  by (simp add: suffix_to_prefix)

text \<open>The theorem of C8 on the example of the specification and on the three other causes.\<close>

theorem upload_failure_atomic_witness:
  "handleFileUpload examplePlatform csvUpload busyState
     = busyState\<lparr>uploadError := Some ''CSV parsing error on row 3: X''\<rparr>
   \<and> allProjects (handleFileUpload examplePlatform csvUpload busyState) = [ecoRecord, ecoRecord]
   \<and> uploadOutcome examplePlatform lostUpload = Inl ''Failed to read the file.''
   \<and> uploadOutcome examplePlatform objectUpload
       = Inl ''Invalid JSON format. Expected an array of projects.''
   \<and> uploadOutcome examplePlatform textUpload
       = Inl ''Unsupported file type. Please upload a .csv or .json file.''"
proof -
  have o: "uploadOutcome examplePlatform csvUpload = Inl ''CSV parsing error on row 3: X''"
    using upload_failure_atomic [of examplePlatform csvUpload _ _ "''a,b''" _
        "\<lparr>row = Some 3, message = ''X''\<rparr>" "[]"]
    by (simp add: csvUpload_def examplePlatform_def jsonFile_def csvFile_def endsWith_def
        suffix_eval showRow_def showNat_3)
  have a: "handleFileUpload examplePlatform csvUpload busyState
     = busyState\<lparr>uploadError := Some ''CSV parsing error on row 3: X''\<rparr>"
    using upload_failure_atomic [of examplePlatform csvUpload "''CSV parsing error on row 3: X''"
        busyState] o
    by simp
  have b: "allProjects busyState = [ecoRecord, ecoRecord]"
    by (simp add: busyState_def)
  have c: "uploadOutcome examplePlatform lostUpload = Inl ''Failed to read the file.''"
    using upload_failure_atomic [of examplePlatform lostUpload] by (simp add: lostUpload_def)
  have d: "uploadOutcome examplePlatform objectUpload
       = Inl ''Invalid JSON format. Expected an array of projects.''"
    using upload_failure_atomic [of examplePlatform objectUpload _ _ "''{}''" "JObj []"]
    by (simp add: objectUpload_def examplePlatform_def jsonFile_def isArray_def)
  have e: "uploadOutcome examplePlatform textUpload
       = Inl ''Unsupported file type. Please upload a .csv or .json file.''"
    using upload_failure_atomic [of examplePlatform textUpload _ _ "''a''"]
    by (simp add: textUpload_def jsonFile_def csvFile_def endsWith_def suffix_eval)
  show ?thesis
    using a b c d e by simp
qed

lemma jsonUpload_outcome: "uploadOutcome examplePlatform jsonUpload = Inr [ecoRecord]"
  by (simp add: uploadOutcome_def processFile_def jsonUpload_def examplePlatform_def endsWith_def
      suffix_eval transformItemToProject_def csvRow_def Let_def orElse_def key_defs
      mergeAttributes_def trim_def toCoordinate_def isNaN_def parse_defs ecoRecord_def)

text \<open>The theorem of C10 on a JSON upload into a state with every filter set.\<close>

theorem upload_success_resets_witness:
  "handleFileUpload examplePlatform jsonUpload busyState =
     \<lparr>allProjects = [ecoRecord], filteredProjects = [ecoRecord], uploadError = None,
      selectedProvince = ''All'', selectedDistrict = ''All'', selectedInvestor = ''All'',
      showLabels = True, minProjectsCount = 0, searchQuery = [], investorSearchQuery = []\<rparr>"
  using upload_success_resets [of examplePlatform jsonUpload "[ecoRecord]" busyState]
    jsonUpload_outcome
  by (simp add: busyState_def)

section \<open>Chart coordinates\<close>

subsection \<open>The horizontal axis\<close>

lemma getX_formula:
  assumes "2 \<le> length (labels d)"
  shows "getX d i =
           Fin (padding + of_nat i / (of_nat (length (labels d)) - 1) * (width - 2 * padding))"
proof -
  have "(of_nat (length (labels d)) :: rat) - 1 \<noteq> 0"
    using assms by (auto simp add: of_nat_eq_iff [of _ 1, simplified])
  then show ?thesis
    by (simp add: getX_def numAdd_def numSub_def numMul_def numDiv_def chartWidth_def)
qed

lemma getX_single:
  assumes "length (labels d) = 1"
  shows "getX d 0 = NaN" and "0 < i \<Longrightarrow> getX d i = PosInf"
  using assms
  by (simp_all add: getX_def numAdd_def numSub_def numMul_def numDiv_def signedInf_def
      chartWidth_def width_def padding_def)

lemma createPath_single:
  "length (labels d) = 1 \<Longrightarrow> createPath d [v] = [(MoveTo, NaN, getY d v)]"
  by (simp add: createPath_def enumerate_eq_zip getX_single)

text \<open>
  C5 (as amended). With two labels or more, \<open>getX\<close> is the formula of the
  specification. With exactly one label nothing guards the division: the quotient is
  0/0, so the only point has the abscissa NaN and the path is a single move to it.
\<close>

theorem getX_unguarded:
  "(2 \<le> length (labels d) \<longrightarrow>
      getX d i = Fin (padding + of_nat i / (of_nat (length (labels d)) - 1) * (width - 2 * padding)))
   \<and> (length (labels d) = 1 \<longrightarrow>
        getX d 0 = NaN \<and> createPath d [v] = [(MoveTo, NaN, getY d v)])"
  using getX_formula [of d i] getX_single(1) [of d] createPath_single [of d v] by blast

text \<open>The theorem of C5 on both.\<close>

theorem getX_unguarded_witness:
  "getX history 0 = Fin padding \<and> getX history 1 = Fin (width - padding)
   \<and> getX singlePoint 0 = NaN
   \<and> map (\<lambda>(c, x, y). (c, x)) (createPath singlePoint (avg singlePoint)) = [(MoveTo, NaN)]"
proof -
  have a: "getX history 0 = Fin padding" "getX history 1 = Fin (width - padding)"
    using getX_unguarded [of history 0] getX_unguarded [of history 1]
    by (simp_all add: history_def width_def padding_def)
  have b: "getX singlePoint 0 = NaN
     \<and> createPath singlePoint [Some (Fin 15)] = [(MoveTo, NaN, getY singlePoint (Some (Fin 15)))]"
    using getX_unguarded [of singlePoint 0 "Some (Fin 15)"] by (simp add: singlePoint_def)
  have c: "avg singlePoint = [Some (Fin 15)]"
    by (simp add: singlePoint_def)
  show ?thesis
    using a b by (simp add: c)
qed

text \<open>C5 as stated fails: the single point is not placed at the left edge.\<close>

theorem getX_single_counterexample:
  "length (labels singlePoint) = 1 \<and> getX singlePoint 0 = NaN \<and> getX singlePoint 0 \<noteq> Fin padding"
  by (simp add: singlePoint_def getX_def numAdd_def numSub_def numMul_def numDiv_def
      signedInf_def chartWidth_def width_def padding_def)

subsection \<open>The vertical axis\<close>


















end
